theory Spec2Isabelle
  imports Main "HOL-Library.Sublist"
begin

section \<open>Data model\<close>

text \<open>
  The relational store holds the two tables the handlers touch. A row of the table
  \<open>user\<close> (\<^verbatim>\<open>models/user.schema.ts\<close>) and a row of the table \<open>otp\<close>
  (\<^verbatim>\<open>models/otp.schema.ts\<close>) are records; a nullable column is an \<open>option\<close>.
  A table is the list of its rows, \<^verbatim>\<open>findFirst\<close> is \<^const>\<open>find\<close> and an
  insert appends. For the table \<open>user\<close>, whose rows are never updated or deleted, the
  list is in the order the store scans it. For the table \<open>otp\<close> the order of the list
  carries no meaning: the store may scan the rows in another order once some have been
  updated, and the handlers use the table only to ask whether some row matches and to
  update rows one by one (lemma \<open>signUp_otp_order\<close> below). Strings are lists of
  characters and are compared character by character, as JavaScript's \<^verbatim>\<open>!==\<close> and
  SQL's \<^verbatim>\<open>=\<close> on \<^verbatim>\<open>varchar\<close> do.

  Scope of the store model: the store answers every call, and rejects one only for a
  value that does not fit its column (the \<^verbatim>\<open>varchar(255)\<close> columns of \<open>user\<close>; see
  sign-up below). A lost connection is not part of this model.
\<close>

record user_row =
  user_id :: string
  user_name :: string
  user_email :: string
  user_password :: string
  user_phone :: "string option"
  user_createdAt :: "nat option"

record otp_row =
  otp_id :: string
  otp_email :: string
  otp_code :: string
  otp_isUsed :: "bool option"

record store =
  usersTable :: "user_row list"
  otpTable :: "otp_row list"

text \<open>
  The store calls a handler makes, in the order it awaits them; the last one may be a call
  that the store has rejected.
\<close>

datatype store_op =
    FindUserByEmail string
  | FindUnusedOtp string "string option"
  | InsertUser user_row
  | MarkOtpUsed string

text \<open>\<^verbatim>\<open>JwtPayload\<close> of \<^verbatim>\<open>utils/index.ts\<close>.\<close>

record jwt_payload =
  jwt_id :: string
  jwt_email :: string
  jwt_name :: string

text \<open>
  What a handler's run depends on besides the request and the store: the bcrypt hash
  with the salt of this call, the signing of a token at the time of this call, and the
  defaults the store fills in for a new row (\<^verbatim>\<open>defaultRandom()\<close>,
  \<^verbatim>\<open>defaultNow()\<close>). These come from libraries and the database, not from the
  repository, and are parameters of the model.
\<close>

record env =
  hashPassword :: "string \<Rightarrow> string"
  encodeJWT :: "jwt_payload \<Rightarrow> string \<Rightarrow> string"
  defaultRandom :: string
  defaultNow :: nat

record cookie =
  cookie_name :: string
  cookie_value :: string
  cookie_httpOnly :: bool
  cookie_sameSite :: string
  cookie_path :: string
  cookie_maxAge :: nat

text \<open>A reply of the user controller: status, the body's \<open>message\<close> and \<open>data\<close>, the cookie set.\<close>

record reply =
  status :: nat
  message :: string
  data :: "user_row option"
  set_cookie :: "cookie option"

record outcome =
  sent :: reply
  db :: store
  ops :: "store_op list"

record sign_in_body =
  si_email :: string
  si_password :: string

text \<open>
  The bodies as the handlers destructure them. \<^verbatim>\<open>UserController.signUp\<close> reads
  \<open>otp\<close> from \<^verbatim>\<open>request.body\<close>, where it is \<^verbatim>\<open>undefined\<close> (here \<open>None\<close>) when the
  body has no such key.
\<close>

record sign_up_body =
  su_name :: string
  su_email :: string
  su_phone :: string
  su_password :: string
  su_otp :: "string option"

section \<open>The top-level error handler\<close>

text \<open>
  The function given to \<^verbatim>\<open>fastify.setErrorHandler\<close> in \<^verbatim>\<open>index.ts\<close>. The thrown
  error's \<^verbatim>\<open>statusCode\<close> is optional; \<^verbatim>\<open>err.statusCode && \<dots>\<close> is false for
  \<^verbatim>\<open>undefined\<close> and for 0.
\<close>

record thrown_error =
  statusCode :: "int option"
  error_message :: string

record error_reply =
  reply_code :: int
  reply_message :: string

definition errorHandler :: "thrown_error \<Rightarrow> error_reply" where
  "errorHandler err =
     (let status =
            (case statusCode err of
               None \<Rightarrow> 500
             | Some c \<Rightarrow> if c \<noteq> 0 \<and> c \<ge> 400 \<and> c < 600 then c else 500)
      in \<lparr>reply_code = status,
          reply_message = (if status = 500 then ''Internal server error'' else error_message err)\<rparr>)"

section \<open>The user controller\<close>

definition send_message :: "nat \<Rightarrow> string \<Rightarrow> reply" where
  "send_message st msg = \<lparr>status = st, message = msg, data = None, set_cookie = None\<rparr>"

definition token_cookie :: "string \<Rightarrow> cookie" where
  "token_cookie tok =
     \<lparr>cookie_name = ''token'', cookie_value = tok, cookie_httpOnly = True,
      cookie_sameSite = ''lax'', cookie_path = ''/'', cookie_maxAge = 60 * 60 * (24 * 7)\<rparr>"

definition payload_of :: "user_row \<Rightarrow> jwt_payload" where
  "payload_of u = \<lparr>jwt_id = user_id u, jwt_email = user_email u, jwt_name = user_name u\<rparr>"

text \<open>\<^verbatim>\<open>UserController.signIn\<close>.\<close>

definition signIn :: "env \<Rightarrow> store \<Rightarrow> sign_in_body \<Rightarrow> outcome" where
  "signIn e s b =
     (case find (\<lambda>u. user_email u = si_email b) (usersTable s) of
        None \<Rightarrow>
          \<lparr>sent = send_message 422 ''Invalid email or password'', db = s,
           ops = [FindUserByEmail (si_email b)]\<rparr>
      | Some user \<Rightarrow>
          if user_password user \<noteq> si_password b then
            \<lparr>sent = send_message 422 ''Please enter correct password'', db = s,
             ops = [FindUserByEmail (si_email b)]\<rparr>
          else
            let token = encodeJWT e (payload_of user) ''7d'' in
            \<lparr>sent = \<lparr>status = 200, message = ''Login successful'', data = Some user,
                     set_cookie = Some (token_cookie token)\<rparr>,
             db = s, ops = [FindUserByEmail (si_email b)]\<rparr>)"

text \<open>
  \<^verbatim>\<open>UserController.signUp\<close>. The OTP lookup is the conjunction of the three
  \<^verbatim>\<open>eq\<close> conditions; \<^verbatim>\<open>eq(otp.isUsed, false)\<close> does not match a row whose flag is
  NULL, and \<^verbatim>\<open>eq(otp.code, recivedOtp)\<close> with \<^verbatim>\<open>recivedOtp\<close> undefined reaches the
  store as a comparison with NULL, which no row satisfies. The update marks every row of
  the email.
\<close>

definition otp_matches :: "string \<Rightarrow> string option \<Rightarrow> otp_row \<Rightarrow> bool" where
  "otp_matches email code r \<longleftrightarrow>
     otp_email r = email \<and> otp_isUsed r = Some False \<and> code = Some (otp_code r)"

definition mark_used :: "string \<Rightarrow> otp_row list \<Rightarrow> otp_row list" where
  "mark_used email rows =
     map (\<lambda>r. if otp_email r = email then r\<lparr>otp_isUsed := Some True\<rparr> else r) rows"

text \<open>
  The insert into \<open>user\<close>. The columns \<open>name\<close>, \<open>email\<close>, \<open>password\<close> and \<open>phone\<close>
  are \<^verbatim>\<open>varchar(255)\<close>, and the schemas set minimum lengths only. PostgreSQL rejects a
  value of more than 255 characters, unless all the characters beyond the 255th are
  spaces, in which case it stores the first 255. The row of the model has the name and
  the phone as stored. It has the email as submitted and the password as hashed: an
  email that has passed \<^verbatim>\<open>z.email\<close> contains no space and a bcrypt hash has 60
  characters, so that on the requests of the route these two are stored whole.

  The rejection is an error thrown in the handler, which catches nothing: the insert is
  not made, no OTP row is marked, and the reply is the one of the top-level error
  handler for an error without \<^verbatim>\<open>statusCode\<close>.
\<close>

definition varchar_accepts :: "nat \<Rightarrow> string \<Rightarrow> bool" where
  "varchar_accepts n v \<longleftrightarrow> length v \<le> n \<or> list_all (\<lambda>c. c = CHR '' '') (drop n v)"

definition insert_accepted :: "env \<Rightarrow> sign_up_body \<Rightarrow> bool" where
  "insert_accepted e b \<longleftrightarrow>
     varchar_accepts 255 (su_name b) \<and> varchar_accepts 255 (su_email b)
     \<and> varchar_accepts 255 (hashPassword e (su_password b)) \<and> varchar_accepts 255 (su_phone b)"

definition new_user :: "env \<Rightarrow> sign_up_body \<Rightarrow> user_row" where
  "new_user e b =
     \<lparr>user_id = defaultRandom e, user_name = take 255 (su_name b), user_email = su_email b,
      user_password = hashPassword e (su_password b), user_phone = Some (take 255 (su_phone b)),
      user_createdAt = Some (defaultNow e)\<rparr>"

definition value_too_long :: thrown_error where
  "value_too_long =
     \<lparr>statusCode = None, error_message = ''value too long for type character varying(255)''\<rparr>"

definition uncaught :: "thrown_error \<Rightarrow> reply" where
  "uncaught err =
     \<lparr>status = nat (reply_code (errorHandler err)), message = reply_message (errorHandler err),
      data = None, set_cookie = None\<rparr>"

definition signUp :: "env \<Rightarrow> store \<Rightarrow> sign_up_body \<Rightarrow> outcome" where
  "signUp e s b =
     (case find (\<lambda>u. user_email u = su_email b) (usersTable s) of
        Some isEmailExist \<Rightarrow>
          \<lparr>sent = send_message 422 ''Email already exists'', db = s,
           ops = [FindUserByEmail (su_email b)]\<rparr>
      | None \<Rightarrow>
          (case find (otp_matches (su_email b) (su_otp b)) (otpTable s) of
             None \<Rightarrow>
               \<lparr>sent = send_message 422 ''Invalid OTP code either used or expired'', db = s,
                ops = [FindUserByEmail (su_email b), FindUnusedOtp (su_email b) (su_otp b)]\<rparr>
           | Some isOtpValid \<Rightarrow>
               let user = new_user e b in
               if \<not> insert_accepted e b then
                 \<lparr>sent = uncaught value_too_long, db = s,
                  ops = [FindUserByEmail (su_email b), FindUnusedOtp (su_email b) (su_otp b),
                         InsertUser user]\<rparr>
               else
                 let s1 = s\<lparr>usersTable := usersTable s @ [user]\<rparr>;
                     s2 = s1\<lparr>otpTable := mark_used (su_email b) (otpTable s1)\<rparr>;
                     encode = encodeJWT e (payload_of user) ''7d''
                 in \<lparr>sent = \<lparr>status = 200, message = ''Sign up successful'', data = Some user,
                             set_cookie = Some (token_cookie encode)\<rparr>,
                     db = s2,
                     ops = [FindUserByEmail (su_email b), FindUnusedOtp (su_email b) (su_otp b),
                            InsertUser user, MarkOtpUsed (su_email b)]\<rparr>))"

section \<open>The auth gate\<close>





text \<open>\<^verbatim>\<open>String.prototype.split\<close> with a one-character separator, and indexing an array.\<close>

fun split :: "char \<Rightarrow> string \<Rightarrow> string list" where
  "split sep [] = [[]]"
| "split sep (c # cs) =
     (if c = sep then [] # split sep cs
      else (case split sep cs of [] \<Rightarrow> [[c]] | w # ws \<Rightarrow> (c # w) # ws))"






section \<open>The request validator\<close>

text \<open>
  \<^verbatim>\<open>formatZodErrors\<close> and \<^verbatim>\<open>validateWithZod\<close> of \<^verbatim>\<open>utils/index.ts\<close>. An issue of
  a \<^verbatim>\<open>ZodError\<close> has a path (its segments as strings) and a message.

  \<^verbatim>\<open>formatted\<close> starts as the object literal \<^verbatim>\<open>{}\<close>: reading
  \<^verbatim>\<open>formatted[path]\<close> yields the own property when there is one and otherwise what
  \<^verbatim>\<open>Object.prototype\<close> has under that name, which is a function or an object and so
  truthy. \<^verbatim>\<open>!formatted[path]\<close> therefore holds when the name is neither set nor
  inherited, or is set to the empty string.
\<close>

record zod_issue =
  issue_path :: "string list"
  issue_message :: string

fun join :: "string list \<Rightarrow> string \<Rightarrow> string" where
  "join [] sep = []"
| "join [x] sep = x"
| "join (x # y # ys) sep = x @ sep @ join (y # ys) sep"

definition object_prototype_names :: "string list" where
  "object_prototype_names =
     [''constructor'', ''__defineGetter__'', ''__defineSetter__'', ''hasOwnProperty'',
      ''__lookupGetter__'', ''__lookupSetter__'', ''isPrototypeOf'', ''propertyIsEnumerable'',
      ''toString'', ''valueOf'', ''__proto__'', ''toLocaleString'']"

definition falsy_at :: "(string \<rightharpoonup> string) \<Rightarrow> string \<Rightarrow> bool" where
  "falsy_at formatted path \<longleftrightarrow>
     (case formatted path of
        Some m \<Rightarrow> m = []
      | None \<Rightarrow> path \<notin> set object_prototype_names)"

fun formatZodErrors_from :: "(string \<rightharpoonup> string) \<Rightarrow> zod_issue list \<Rightarrow> (string \<rightharpoonup> string)" where
  "formatZodErrors_from formatted [] = formatted"
| "formatZodErrors_from formatted (issue # issues) =
     (let path = join (issue_path issue) ''.'' in
      if falsy_at formatted path
      then formatZodErrors_from (formatted(path \<mapsto> issue_message issue)) issues
      else formatZodErrors_from formatted issues)"

definition formatZodErrors :: "zod_issue list \<Rightarrow> (string \<rightharpoonup> string)" where
  "formatZodErrors issues = formatZodErrors_from Map.empty issues"

text \<open>
  A schema is what its \<^verbatim>\<open>safeParse\<close> does to a value: it returns a success with the
  parsed data or a failure with issues, or it throws.
\<close>

datatype 'a safe_parse = Success 'a | Failure "zod_issue list"

datatype thrown = ZodError "zod_issue list" | OtherError string

type_synonym 'a zod_type = "'a \<Rightarrow> thrown + 'a safe_parse"

record ('b, 'q, 'p) request =
  req_body :: 'b
  req_query :: 'q
  req_params :: 'p

record ('b, 'q, 'p) schemas =
  schema_body :: "'b zod_type option"
  schema_query :: "'q zod_type option"
  schema_params :: "'p zod_type option"

record validation_reply =
  v_status :: nat
  v_error :: string
  v_details :: "string \<rightharpoonup> string"

text \<open>
  What the hook does: it sends a reply, returns with the request (its parts replaced by
  the parsed data), or lets an error escape.
\<close>

datatype ('b, 'q, 'p) validated =
  Replied validation_reply | Continue "('b, 'q, 'p) request" | Rethrown string

definition invalid :: "string \<Rightarrow> zod_issue list \<Rightarrow> validation_reply" where
  "invalid label issues = \<lparr>v_status = 422, v_error = label, v_details = formatZodErrors issues\<rparr>"

definition caught :: "thrown \<Rightarrow> ('b, 'q, 'p) validated" where
  "caught err =
     (case err of
        ZodError issues \<Rightarrow> Replied (invalid ''Validation failed'' issues)
      | OtherError m \<Rightarrow> Rethrown m)"

text \<open>
  \<^verbatim>\<open>if (schemas.body) { const result = schemas.body.safeParse(req.body); \<dots> }\<close>: a
  part for which no schema is given is kept as it is.
\<close>

definition safeParse_if :: "'a zod_type option \<Rightarrow> 'a \<Rightarrow> thrown + 'a safe_parse" where
  "safeParse_if schema v = (case schema of None \<Rightarrow> Inr (Success v) | Some sch \<Rightarrow> sch v)"

definition validateWithZod ::
  "('b, 'q, 'p) request \<Rightarrow> ('b, 'q, 'p) schemas \<Rightarrow> ('b, 'q, 'p) validated" where
  "validateWithZod req schemas =
     (case safeParse_if (schema_body schemas) (req_body req) of
        Inl err \<Rightarrow> caught err
      | Inr (Failure issues) \<Rightarrow> Replied (invalid ''Invalid body'' issues)
      | Inr (Success body) \<Rightarrow>
     (case safeParse_if (schema_query schemas) (req_query req) of
        Inl err \<Rightarrow> caught err
      | Inr (Failure issues) \<Rightarrow> Replied (invalid ''Invalid query'' issues)
      | Inr (Success query) \<Rightarrow>
     (case safeParse_if (schema_params schemas) (req_params req) of
        Inl err \<Rightarrow> caught err
      | Inr (Failure issues) \<Rightarrow> Replied (invalid ''Invalid params'' issues)
      | Inr (Success params) \<Rightarrow>
          Continue \<lparr>req_body = body, req_query = query, req_params = params\<rparr>)))"

text \<open>
  A route registered with a \<^verbatim>\<open>preValidation\<close> hook and a handler
  (\<^verbatim>\<open>UserController.register\<close>): the hook runs first; when it has sent a reply the
  request ends there, and the handler runs only on the request the hook returns with.
\<close>

datatype 'r routed =
    Short_circuited validation_reply store "store_op list"
  | Handled 'r
  | Uncaught string

definition route ::
  "(('b, 'q, 'p) request \<Rightarrow> ('b, 'q, 'p) validated) \<Rightarrow> (('b, 'q, 'p) request \<Rightarrow> store \<Rightarrow> 'r)
     \<Rightarrow> ('b, 'q, 'p) request \<Rightarrow> store \<Rightarrow> 'r routed" where
  "route preValidation handler req s =
     (case preValidation req of
        Replied r \<Rightarrow> Short_circuited r s []
      | Continue req' \<Rightarrow> Handled (handler req' s)
      | Rethrown m \<Rightarrow> Uncaught m)"

section \<open>The password rule\<close>

text \<open>
  The \<open>password\<close> field of \<^verbatim>\<open>signUpUserSchema\<close> (and, with the same chain, of
  \<^verbatim>\<open>signInUserSchema\<close>) in \<^verbatim>\<open>users/user.validation.schema.ts\<close>: a string with a
  minimum length and four regular expressions, each a single character class, each with
  its message. A rule is a test and its message; a value passes when no rule fails, and
  zod reports the failing rules in the order of the chain.
\<close>

type_synonym rule = "(string \<Rightarrow> bool) \<times> string"

definition min_rule :: "nat \<Rightarrow> string \<Rightarrow> rule" where
  "min_rule n msg = (\<lambda>s. n \<le> length s, msg)"

definition regex_rule :: "(char \<Rightarrow> bool) \<Rightarrow> string \<Rightarrow> rule" where
  "regex_rule cls msg = (\<lambda>s. list_ex cls s, msg)"

definition in_range :: "char \<Rightarrow> char \<Rightarrow> char \<Rightarrow> bool" where
  "in_range lo hi c \<longleftrightarrow> (of_char lo :: nat) \<le> of_char c \<and> (of_char c :: nat) \<le> of_char hi"

definition upper :: "char \<Rightarrow> bool" where
  "upper c \<longleftrightarrow> in_range CHR ''A'' CHR ''Z'' c"

definition lower :: "char \<Rightarrow> bool" where
  "lower c \<longleftrightarrow> in_range CHR ''a'' CHR ''z'' c"

definition digit :: "char \<Rightarrow> bool" where
  "digit c \<longleftrightarrow> in_range CHR ''0'' CHR ''9'' c"

definition special :: "char \<Rightarrow> bool" where
  "special c \<longleftrightarrow> \<not> (upper c \<or> lower c \<or> digit c)"

definition password_rules :: "rule list" where
  "password_rules =
     [min_rule 8 ''Password must be at least 8 characters'',
      regex_rule upper ''Password must contain at least one uppercase letter'',
      regex_rule lower ''Password must contain at least one lowercase letter'',
      regex_rule digit ''Password must contain at least one number'',
      regex_rule special ''Password must contain at least one special character'']"

definition failing :: "rule list \<Rightarrow> string \<Rightarrow> string list" where
  "failing rules s = map snd (filter (\<lambda>r. \<not> fst r s) rules)"

definition accepts :: "rule list \<Rightarrow> string \<Rightarrow> bool" where
  "accepts rules s \<longleftrightarrow> failing rules s = []"

section \<open>The sign-up schema and the sign-up route\<close>

text \<open>
  The other string fields of \<^verbatim>\<open>signUpUserSchema\<close>, and the issues zod reports for a
  string field: one for each failing rule, in the order of the chain, at the path of the
  field. The format test behind \<^verbatim>\<open>z.email\<close> is a parameter.
\<close>

definition name_rules :: "rule list" where
  "name_rules = [min_rule 2 ''Name must be at least 2 characters'']"

definition phone_rules :: "rule list" where
  "phone_rules = [min_rule 10 ''Phone number must be at least 10 digits'']"

definition email_rules :: "(string \<Rightarrow> bool) \<Rightarrow> rule list" where
  "email_rules email_format = [(email_format, ''Email is invalid'')]"

definition field_issues :: "string \<Rightarrow> rule list \<Rightarrow> string \<Rightarrow> zod_issue list" where
  "field_issues field rules v =
     map (\<lambda>m. \<lparr>issue_path = [field], issue_message = m\<rparr>) (failing rules v)"

text \<open>
  The object \<^verbatim>\<open>user\<close> of \<^verbatim>\<open>signUpUserSchema\<close>, on a body whose \<open>name\<close>,
  \<open>email\<close>, \<open>phone\<close> and \<open>password\<close> are strings. It declares these four keys and no
  other, and the data of a successful parse has the declared keys only: \<open>otp\<close>, which
  the schema does not declare, is not part of it. The issues of a failed parse are those
  of the fields, in the order of the keys.
\<close>

definition signUp_user :: "(string \<Rightarrow> bool) \<Rightarrow> sign_up_body zod_type" where
  "signUp_user email_format body =
     (let issues =
            field_issues ''name'' name_rules (su_name body)
            @ field_issues ''email'' (email_rules email_format) (su_email body)
            @ field_issues ''phone'' phone_rules (su_phone body)
            @ field_issues ''password'' password_rules (su_password body)
      in Inr (if issues = [] then Success (body\<lparr>su_otp := None\<rparr>) else Failure issues))"

text \<open>
  \<^verbatim>\<open>UserValidationSchema.signUpUserSchema\<close>, and the route
  \<^verbatim>\<open>router.post("/sign-up", { preValidation: this.schema.signUpUserSchema }, this.signUp)\<close>
  of \<^verbatim>\<open>UserController.register\<close>, the only caller of \<^verbatim>\<open>signUp\<close>: the handler
  reads the body that \<^verbatim>\<open>validateWithZod\<close> has put in place of the one received.
\<close>

definition signUpUserSchema ::
  "(string \<Rightarrow> bool) \<Rightarrow> (sign_up_body, 'q, 'p) request \<Rightarrow> (sign_up_body, 'q, 'p) validated" where
  "signUpUserSchema email_format req =
     validateWithZod req
       \<lparr>schema_body = Some (signUp_user email_format), schema_query = None, schema_params = None\<rparr>"

definition sign_up_route ::
  "(string \<Rightarrow> bool) \<Rightarrow> env \<Rightarrow> (sign_up_body, 'q, 'p) request \<Rightarrow> store \<Rightarrow> outcome routed" where
  "sign_up_route email_format e req s =
     route (signUpUserSchema email_format) (\<lambda>req' s'. signUp e s' (req_body req')) req s"

section \<open>The OTP generator\<close>

text \<open>
  \<^verbatim>\<open>generate4DigitOTP\<close> of \<^verbatim>\<open>utils/index.ts\<close>. The number drawn by
  \<^verbatim>\<open>randomInt(0, 10_000)\<close> is the argument; \<^verbatim>\<open>toString\<close> writes a natural number in
  decimal and \<^verbatim>\<open>padStart\<close> fills on the left up to the target length.
\<close>

definition digit_char :: "nat \<Rightarrow> char" where
  "digit_char d = char_of (of_char CHR ''0'' + d)"

fun toString :: "nat \<Rightarrow> string" where
  "toString n = (if n < 10 then [digit_char n] else toString (n div 10) @ [digit_char (n mod 10)])"

declare toString.simps [simp del]

definition padStart :: "string \<Rightarrow> nat \<Rightarrow> string \<Rightarrow> string" where
  "padStart s targetLength padString =
     (if targetLength \<le> length s \<or> padString = [] then s
      else take (targetLength - length s) (concat (replicate (targetLength - length s) padString)) @ s)"

definition generate4DigitOTP :: "nat \<Rightarrow> string" where
  "generate4DigitOTP randomInt = padStart (toString randomInt) 4 ''0''"

text \<open>The number a string of decimal digits denotes.\<close>

definition digit_value :: "char \<Rightarrow> nat" where
  "digit_value c = of_char c - of_char CHR ''0''"

definition decimal :: "string \<Rightarrow> nat" where
  "decimal s = foldl (\<lambda>acc c. 10 * acc + digit_value c) 0 s"

section \<open>Concrete stores and requests\<close>

text \<open>
  Inputs on which the handlers are run below. The hash of \<open>demo_env\<close> is a stand-in
  that, like bcrypt, returns a string different from the password it is given.
\<close>

definition demo_env :: env where
  "demo_env =
     \<lparr>hashPassword = (\<lambda>p. ''$2b$10$'' @ p),
      encodeJWT = (\<lambda>p ttl. jwt_id p @ ''.'' @ ttl),
      defaultRandom = ''u-2'', defaultNow = 0\<rparr>"

definition demo_otps :: "otp_row list" where
  "demo_otps =
     [\<lparr>otp_id = ''o-1'', otp_email = ''a@b.com'', otp_code = ''0042'', otp_isUsed = Some False\<rparr>,
      \<lparr>otp_id = ''o-2'', otp_email = ''c@d.com'', otp_code = ''1234'', otp_isUsed = Some False\<rparr>,
      \<lparr>otp_id = ''o-3'', otp_email = ''a@b.com'', otp_code = ''1234'', otp_isUsed = Some False\<rparr>]"

definition demo_user :: user_row where
  "demo_user =
     \<lparr>user_id = ''u-1'', user_name = ''Al'', user_email = ''a@b.com'',
      user_password = ''$2b$10$Abc123!@'', user_phone = Some ''1234567890'',
      user_createdAt = Some 0\<rparr>"

definition fresh_store :: store where
  "fresh_store = \<lparr>usersTable = [], otpTable = demo_otps\<rparr>"

definition registered_store :: store where
  "registered_store = \<lparr>usersTable = [demo_user], otpTable = demo_otps\<rparr>"

definition demo_sign_up :: sign_up_body where
  "demo_sign_up =
     \<lparr>su_name = ''Al'', su_email = ''a@b.com'', su_phone = ''1234567890'',
      su_password = ''Abc123!@'', su_otp = Some ''1234''\<rparr>"

definition wrong_otp_sign_up :: sign_up_body where
  "wrong_otp_sign_up =
     \<lparr>su_name = ''Al'', su_email = ''a@b.com'', su_phone = ''1234567890'',
      su_password = ''Abc123!@'', su_otp = Some ''9999''\<rparr>"

text \<open>
  The request body that the README gives for \<^verbatim>\<open>POST /user/sign-up\<close>, a store in which
  an unused OTP row waits for it and no user has its email yet, and a stand-in for the
  format test of \<^verbatim>\<open>z.email\<close>.
\<close>

definition readme_sign_up :: sign_up_body where
  "readme_sign_up =
     \<lparr>su_name = ''John Doe'', su_email = ''john@example.com'', su_phone = ''1234567890'',
      su_password = ''SecurePass123!'', su_otp = Some ''1234''\<rparr>"

definition readme_request :: "(sign_up_body, unit, unit) request" where
  "readme_request = \<lparr>req_body = readme_sign_up, req_query = (), req_params = ()\<rparr>"

definition readme_store :: store where
  "readme_store =
     \<lparr>usersTable = [],
      otpTable = [\<lparr>otp_id = ''o-9'', otp_email = ''john@example.com'', otp_code = ''1234'',
                   otp_isUsed = Some False\<rparr>]\<rparr>"

definition demo_email_format :: "string \<Rightarrow> bool" where
  "demo_email_format s \<longleftrightarrow> CHR ''@'' \<in> set s"

definition demo_sign_in :: sign_in_body where
  "demo_sign_in = \<lparr>si_email = ''a@b.com'', si_password = ''Abc123!@''\<rparr>"

definition unknown_sign_in :: sign_in_body where
  "unknown_sign_in = \<lparr>si_email = ''x@y.com'', si_password = ''Abc123!@''\<rparr>"



text \<open>A route whose body is a password alone, checked by the password rule.\<close>

definition password_schema :: "string zod_type" where
  "password_schema v =
     Inr (if accepts password_rules v then Success v
          else Failure (field_issues ''password'' password_rules v))"

definition body_only :: "'b zod_type \<Rightarrow> ('b, 'q, 'p) schemas" where
  "body_only sch = \<lparr>schema_body = Some sch, schema_query = None, schema_params = None\<rparr>"

definition password_request :: "(string, string, string) request" where
  "password_request = \<lparr>req_body = ''abc'', req_query = [], req_params = []\<rparr>"

definition password_handler :: "(string, string, string) request \<Rightarrow> store \<Rightarrow> outcome" where
  "password_handler req s =
     signIn demo_env s \<lparr>si_email = ''a@b.com'', si_password = req_body req\<rparr>"

section \<open>Properties of sign-in and sign-up\<close>

lemma find_None_set: "find P xs = None \<longleftrightarrow> (\<forall>x\<in>set xs. \<not> P x)"
  by (auto simp: find_None_iff)

lemma find_SomeD: "find P xs = Some x \<Longrightarrow> x \<in> set xs \<and> P x"
  by (auto simp: find_Some_iff)

lemma find_ex_Some: "\<exists>x\<in>set xs. P x \<Longrightarrow> \<exists>y. find P xs = Some y"
  by (cases "find P xs") (auto simp: find_None_iff)

lemma find_append_new:
  "\<forall>x\<in>set xs. \<not> P x \<Longrightarrow> P y \<Longrightarrow> find P (xs @ [y]) = Some y"
  by (induction xs) auto

text \<open>The run of a sign-up that passes both checks, written out.\<close>

lemma signUp_accepted:
  assumes "\<forall>u\<in>set (usersTable s). user_email u \<noteq> su_email b"
    and "\<exists>r\<in>set (otpTable s). otp_matches (su_email b) (su_otp b) r"
    and "insert_accepted e b"
  shows "signUp e s b =
     \<lparr>sent = \<lparr>status = 200, message = ''Sign up successful'', data = Some (new_user e b),
              set_cookie = Some (token_cookie (encodeJWT e (payload_of (new_user e b)) ''7d''))\<rparr>,
      db = \<lparr>usersTable = usersTable s @ [new_user e b],
            otpTable = mark_used (su_email b) (otpTable s)\<rparr>,
      ops = [FindUserByEmail (su_email b), FindUnusedOtp (su_email b) (su_otp b),
             InsertUser (new_user e b), MarkOtpUsed (su_email b)]\<rparr>"
proof -
  from assms(1) have u: "find (\<lambda>u. user_email u = su_email b) (usersTable s) = None"
    by (simp add: find_None_set)
  from assms(2) obtain r where r: "find (otp_matches (su_email b) (su_otp b)) (otpTable s) = Some r"
    using find_ex_Some by fastforce
  show ?thesis
    by (simp add: signUp_def u r assms(3) Let_def)
qed

lemma status_uncaught_value_too_long: "status (uncaught value_too_long) = 500"
  by (simp add: uncaught_def value_too_long_def errorHandler_def)

text \<open>A sign-up answered with 200 has passed both checks, and the store has taken the row.\<close>

lemma signUp_200D:
  assumes "status (sent (signUp e s b)) = 200"
  shows "(\<forall>u\<in>set (usersTable s). user_email u \<noteq> su_email b)
         \<and> (\<exists>r\<in>set (otpTable s). otp_matches (su_email b) (su_otp b) r)
         \<and> insert_accepted e b"
proof (cases "find (\<lambda>u. user_email u = su_email b) (usersTable s)")
  case (Some u)
  with assms show ?thesis by (simp add: signUp_def send_message_def)
next
  case None
  then have no: "\<forall>u\<in>set (usersTable s). user_email u \<noteq> su_email b"
    by (simp add: find_None_set)
  show ?thesis
  proof (cases "find (otp_matches (su_email b) (su_otp b)) (otpTable s)")
    case inner: None
    with None assms show ?thesis by (simp add: signUp_def send_message_def)
  next
    case (Some r)
    then have r: "r \<in> set (otpTable s) \<and> otp_matches (su_email b) (su_otp b) r"
      by (rule find_SomeD)
    have "insert_accepted e b"
    proof (rule ccontr)
      assume "\<not> insert_accepted e b"
      with None Some have "status (sent (signUp e s b)) = 500"
        by (simp add: signUp_def Let_def status_uncaught_value_too_long)
      with assms show False by simp
    qed
    with no r show ?thesis by blast
  qed
qed

text \<open>
  A sign-up that passes both checks with a value the store rejects, such as a name of
  256 letters, is answered with 500 \<open>Internal server error\<close>; the store is as it was.
\<close>

lemma signUp_value_too_long:
  assumes "\<forall>u\<in>set (usersTable s). user_email u \<noteq> su_email b"
    and "\<exists>r\<in>set (otpTable s). otp_matches (su_email b) (su_otp b) r"
    and "\<not> insert_accepted e b"
  shows "sent (signUp e s b) = send_message 500 ''Internal server error'' \<and> db (signUp e s b) = s"
proof -
  from assms(1) have u: "find (\<lambda>u. user_email u = su_email b) (usersTable s) = None"
    by (simp add: find_None_set)
  from assms(2) obtain r where r: "find (otp_matches (su_email b) (su_otp b)) (otpTable s) = Some r"
    using find_ex_Some by fastforce
  show ?thesis
    by (simp add: signUp_def u r assms(3) Let_def uncaught_def value_too_long_def
        errorHandler_def send_message_def)
qed

lemma long_name_rejected:
  "\<not> insert_accepted e (b\<lparr>su_name := replicate 256 CHR ''a''\<rparr>)"
  by (simp add: insert_accepted_def varchar_accepts_def)

text \<open>
  What a sign-up replies and does to the table of users depends on the OTP table only
  through the set of its rows, and the set of OTP rows it leaves behind likewise.
\<close>

lemma signUp_otp_order:
  assumes "set (otpTable s') = set (otpTable s)" and "usersTable s' = usersTable s"
  shows "sent (signUp e s' b) = sent (signUp e s b)
     \<and> ops (signUp e s' b) = ops (signUp e s b)
     \<and> usersTable (db (signUp e s' b)) = usersTable (db (signUp e s b))
     \<and> set (otpTable (db (signUp e s' b))) = set (otpTable (db (signUp e s b)))"
proof (cases "find (\<lambda>u. user_email u = su_email b) (usersTable s)")
  case (Some u)
  with assms show ?thesis by (simp add: signUp_def)
next
  case None
  let ?P = "otp_matches (su_email b) (su_otp b)"
  have same: "find ?P (otpTable s') = None \<longleftrightarrow> find ?P (otpTable s) = None"
    by (simp add: find_None_set assms(1))
  show ?thesis
  proof (cases "find ?P (otpTable s)")
    case inner: None
    with same have "find ?P (otpTable s') = None" by simp
    with None inner assms show ?thesis by (simp add: signUp_def)
  next
    case (Some r)
    with same obtain r' where "find ?P (otpTable s') = Some r'"
      by (cases "find ?P (otpTable s')") auto
    with None Some assms show ?thesis
      by (simp add: signUp_def Let_def mark_used_def)
  qed
qed

text \<open>
  C10. A failed sign-in tells its cause. When no User row has the submitted email the
  reply is 422 with the message \<open>Invalid email or password\<close>; when the row found for the
  email has another password the reply is 422 with the message
  \<open>Please enter correct password\<close>. The first message is sent exactly when no row has the
  email, so the body reveals whether the email is registered.
\<close>

theorem signIn_failure_messages:
  "((\<forall>u\<in>set (usersTable s). user_email u \<noteq> si_email b) \<longrightarrow>
      sent (signIn e s b) = send_message 422 ''Invalid email or password'')
   \<and> (\<forall>u. find (\<lambda>u. user_email u = si_email b) (usersTable s) = Some u
            \<and> user_password u \<noteq> si_password b \<longrightarrow>
      sent (signIn e s b) = send_message 422 ''Please enter correct password'')
   \<and> (message (sent (signIn e s b)) = ''Invalid email or password''
        \<longleftrightarrow> (\<forall>u\<in>set (usersTable s). user_email u \<noteq> si_email b))"
proof (cases "find (\<lambda>u. user_email u = si_email b) (usersTable s)")
  case None
  then have "\<forall>u\<in>set (usersTable s). user_email u \<noteq> si_email b"
    by (simp add: find_None_set)
  with None show ?thesis
    by (simp add: signIn_def send_message_def)
next
  case (Some u)
  then have "u \<in> set (usersTable s)" "user_email u = si_email b"
    by (auto dest: find_SomeD)
  with Some show ?thesis
    by (auto simp: signIn_def send_message_def Let_def)
qed

theorem signIn_failure_messages_witness:
  "\<not> (\<exists>u\<in>set (usersTable registered_store). user_email u = si_email unknown_sign_in)
   \<and> sent (signIn demo_env registered_store unknown_sign_in)
       = send_message 422 ''Invalid email or password''
   \<and> find (\<lambda>u. user_email u = si_email demo_sign_in) (usersTable registered_store) = Some demo_user
   \<and> user_password demo_user \<noteq> si_password demo_sign_in
   \<and> sent (signIn demo_env registered_store demo_sign_in)
       = send_message 422 ''Please enter correct password''"
  using signIn_failure_messages [of registered_store unknown_sign_in demo_env]
    signIn_failure_messages [of registered_store demo_sign_in demo_env]
  by (simp add: registered_store_def demo_user_def unknown_sign_in_def demo_sign_in_def)

text \<open>
  C5. A sign-up whose email already has a User row is answered with 422 and the message
  \<open>Email already exists\<close>, whatever OTP rows the store holds and whatever code is
  submitted; the store is left as it was, and the only store call made is the lookup of
  the user by email: no OTP lookup, no insert, no update.
\<close>

theorem signUp_email_exists:
  "\<exists>u\<in>set (usersTable s). user_email u = su_email b \<Longrightarrow>
     sent (signUp e s b) = send_message 422 ''Email already exists''
     \<and> db (signUp e s b) = s
     \<and> ops (signUp e s b) = [FindUserByEmail (su_email b)]"
proof -
  assume "\<exists>u\<in>set (usersTable s). user_email u = su_email b"
  then obtain y where "find (\<lambda>u. user_email u = su_email b) (usersTable s) = Some y"
    using find_ex_Some [of "usersTable s" "\<lambda>u. user_email u = su_email b"] by blast
  then show ?thesis by (simp add: signUp_def)
qed

theorem signUp_email_exists_witness:
  "(\<exists>u\<in>set (usersTable registered_store). user_email u = su_email demo_sign_up)
   \<and> sent (signUp demo_env registered_store demo_sign_up)
       = send_message 422 ''Email already exists''
   \<and> db (signUp demo_env registered_store demo_sign_up) = registered_store
   \<and> ops (signUp demo_env registered_store demo_sign_up) = [FindUserByEmail ''a@b.com'']"
proof -
  have h: "\<exists>u\<in>set (usersTable registered_store). user_email u = su_email demo_sign_up"
    by (simp add: registered_store_def demo_user_def demo_sign_up_def)
  show ?thesis
    using h signUp_email_exists [OF h, of demo_env] by (simp add: demo_sign_up_def)
qed

text \<open>
  C2. In one run of sign-up on a store, a User row is inserted only if the store holds,
  when the OTP lookup is made, an OTP row whose email is the submitted email, whose code
  is the submitted otp (so an otp has been submitted) and whose isUsed flag is false. If there is no such row the reply
  has status 422, the store is unchanged and no insert is made.
\<close>

theorem signUp_requires_otp:
  "((usersTable (db (signUp e s b)) \<noteq> usersTable s
       \<or> (\<exists>u. InsertUser u \<in> set (ops (signUp e s b)))) \<longrightarrow>
      (\<exists>r\<in>set (otpTable s).
          otp_email r = su_email b \<and> su_otp b = Some (otp_code r) \<and> otp_isUsed r = Some False))
   \<and> (\<not> (\<exists>r\<in>set (otpTable s).
            otp_email r = su_email b \<and> su_otp b = Some (otp_code r) \<and> otp_isUsed r = Some False) \<longrightarrow>
      status (sent (signUp e s b)) = 422 \<and> db (signUp e s b) = s
      \<and> (\<forall>u. InsertUser u \<notin> set (ops (signUp e s b))))"
proof (cases "find (\<lambda>u. user_email u = su_email b) (usersTable s)")
  case (Some u)
  then show ?thesis by (simp add: signUp_def send_message_def)
next
  case None
  show ?thesis
  proof (cases "find (otp_matches (su_email b) (su_otp b)) (otpTable s)")
    case inner: None
    with None show ?thesis by (simp add: signUp_def send_message_def)
  next
    case (Some r)
    then have "r \<in> set (otpTable s)" "otp_matches (su_email b) (su_otp b) r"
      by (auto dest: find_SomeD)
    then have "\<exists>r\<in>set (otpTable s).
        otp_email r = su_email b \<and> su_otp b = Some (otp_code r) \<and> otp_isUsed r = Some False"
      by (auto simp: otp_matches_def)
    then show ?thesis by blast
  qed
qed

theorem signUp_requires_otp_witness:
  "usersTable (db (signUp demo_env fresh_store demo_sign_up)) \<noteq> usersTable fresh_store
   \<and> (\<exists>r\<in>set (otpTable fresh_store).
         otp_email r = su_email demo_sign_up \<and> su_otp demo_sign_up = Some (otp_code r)
         \<and> otp_isUsed r = Some False)
   \<and> \<not> (\<exists>r\<in>set (otpTable fresh_store).
         otp_email r = su_email wrong_otp_sign_up \<and> su_otp wrong_otp_sign_up = Some (otp_code r)
         \<and> otp_isUsed r = Some False)
   \<and> status (sent (signUp demo_env fresh_store wrong_otp_sign_up)) = 422
   \<and> db (signUp demo_env fresh_store wrong_otp_sign_up) = fresh_store"
  using signUp_requires_otp [of demo_env fresh_store demo_sign_up]
    signUp_requires_otp [of demo_env fresh_store wrong_otp_sign_up]
  by (simp add: signUp_def otp_matches_def insert_accepted_def varchar_accepts_def
      fresh_store_def demo_otps_def demo_sign_up_def wrong_otp_sign_up_def demo_env_def Let_def)

text \<open>
  C1. For every sign-in whose email matches a User row, the row found for the email is
  such a row, and the reply is 200 exactly when its stored password equals the submitted
  password, character by character. The hash plays no part in sign-in. Hence after a
  sign-up that stored the hash of a password, a sign-in with that email and that
  plaintext password is refused with \<open>Please enter correct password\<close>, the hash being
  different from the plaintext, as a bcrypt hash is.
\<close>

theorem signIn_compares_plaintext:
  "((\<exists>u\<in>set (usersTable s). user_email u = si_email b) \<longrightarrow>
      (\<exists>u. find (\<lambda>u. user_email u = si_email b) (usersTable s) = Some u
           \<and> u \<in> set (usersTable s) \<and> user_email u = si_email b
           \<and> (status (sent (signIn e s b)) = 200 \<longleftrightarrow> user_password u = si_password b)))
   \<and> signIn (e\<lparr>hashPassword := h\<rparr>) s b = signIn e s b
   \<and> (status (sent (signUp e0 s0 b0)) = 200
        \<and> hashPassword e0 (su_password b0) \<noteq> su_password b0 \<longrightarrow>
        sent (signIn e (db (signUp e0 s0 b0))
               \<lparr>si_email = su_email b0, si_password = su_password b0\<rparr>)
          = send_message 422 ''Please enter correct password'')"
proof (intro conjI impI)
  assume "\<exists>u\<in>set (usersTable s). user_email u = si_email b"
  then obtain u where u: "find (\<lambda>u. user_email u = si_email b) (usersTable s) = Some u"
    using find_ex_Some [of "usersTable s" "\<lambda>u. user_email u = si_email b"] by blast
  then have "u \<in> set (usersTable s) \<and> user_email u = si_email b"
    by (rule find_SomeD)
  moreover have "status (sent (signIn e s b)) = 200 \<longleftrightarrow> user_password u = si_password b"
    by (simp add: signIn_def u send_message_def Let_def)
  ultimately show "\<exists>u. find (\<lambda>u. user_email u = si_email b) (usersTable s) = Some u
           \<and> u \<in> set (usersTable s) \<and> user_email u = si_email b
           \<and> (status (sent (signIn e s b)) = 200 \<longleftrightarrow> user_password u = si_password b)"
    using u by blast
next
  show "signIn (e\<lparr>hashPassword := h\<rparr>) s b = signIn e s b"
    by (simp add: signIn_def split: option.split)
next
  assume a: "status (sent (signUp e0 s0 b0)) = 200
    \<and> hashPassword e0 (su_password b0) \<noteq> su_password b0"
  then have pre: "\<forall>u\<in>set (usersTable s0). user_email u \<noteq> su_email b0"
    "\<exists>r\<in>set (otpTable s0). otp_matches (su_email b0) (su_otp b0) r"
    "insert_accepted e0 b0"
    using signUp_200D [of e0 s0 b0] by blast+
  have f: "find (\<lambda>u. user_email u = su_email b0) (usersTable s0 @ [new_user e0 b0])
      = Some (new_user e0 b0)"
    using pre(1) by (intro find_append_new) (auto simp: new_user_def)
  show "sent (signIn e (db (signUp e0 s0 b0))
               \<lparr>si_email = su_email b0, si_password = su_password b0\<rparr>)
          = send_message 422 ''Please enter correct password''"
    using a by (simp add: signUp_accepted [OF pre] signIn_def f) (simp add: new_user_def)
qed

theorem signIn_compares_plaintext_witness:
  "(\<exists>u\<in>set (usersTable registered_store). user_email u = si_email demo_sign_in)
   \<and> status (sent (signIn demo_env registered_store demo_sign_in)) \<noteq> 200
   \<and> status (sent (signUp demo_env fresh_store demo_sign_up)) = 200
   \<and> hashPassword demo_env (su_password demo_sign_up) \<noteq> su_password demo_sign_up
   \<and> sent (signIn demo_env (db (signUp demo_env fresh_store demo_sign_up))
            \<lparr>si_email = su_email demo_sign_up, si_password = su_password demo_sign_up\<rparr>)
       = send_message 422 ''Please enter correct password''"
  using signIn_compares_plaintext
    [of registered_store demo_sign_in demo_env "hashPassword demo_env" demo_env fresh_store demo_sign_up]
  by (simp add: signUp_def signIn_def otp_matches_def insert_accepted_def varchar_accepts_def
      registered_store_def fresh_store_def demo_user_def demo_otps_def demo_sign_up_def
      demo_sign_in_def demo_env_def new_user_def send_message_def Let_def)

subsection \<open>Sign-up through its route\<close>

text \<open>
  Whatever the request, the route of sign-up inserts no user: either the hook replies
  422, or the handler runs on a body without \<open>otp\<close>, finds either a user with the email
  or no matching OTP row, and replies 422 with the store as it was.
\<close>

lemma signUp_without_otp:
  "su_otp b = None \<Longrightarrow> status (sent (signUp e s b)) = 422 \<and> db (signUp e s b) = s"
proof (cases "find (\<lambda>u. user_email u = su_email b) (usersTable s)")
  case (Some u)
  then show ?thesis by (simp add: signUp_def send_message_def)
next
  case None
  assume "su_otp b = None"
  then have "find (otp_matches (su_email b) (su_otp b)) (otpTable s) = None"
    by (simp add: find_None_set otp_matches_def)
  with None show ?thesis by (simp add: signUp_def send_message_def)
qed

lemma signUp_user_strips_otp:
  "signUp_user email_format body = Inr (Success parsed) \<Longrightarrow> su_otp parsed = None"
  by (auto simp: signUp_user_def Let_def split: if_splits)

lemma sign_up_route_never_inserts:
  "(\<exists>r. sign_up_route email_format e req s = Short_circuited r s [] \<and> v_status r = 422)
   \<or> (\<exists>out. sign_up_route email_format e req s = Handled out
          \<and> status (sent out) = 422 \<and> db out = s)"
proof (cases "signUp_user email_format (req_body req)")
  case (Inl err)
  then show ?thesis by (simp add: signUp_user_def Let_def)
next
  case (Inr res)
  show ?thesis
  proof (cases res)
    case (Failure issues)
    with Inr show ?thesis
      by (simp add: sign_up_route_def route_def signUpUserSchema_def validateWithZod_def
          safeParse_if_def invalid_def)
  next
    case (Success parsed)
    with Inr have "su_otp parsed = None" by (simp add: signUp_user_strips_otp)
    then have "status (sent (signUp e s parsed)) = 422 \<and> db (signUp e s parsed) = s"
      by (rule signUp_without_otp)
    with Inr Success show ?thesis
      by (simp add: sign_up_route_def route_def signUpUserSchema_def validateWithZod_def
          safeParse_if_def)
  qed
qed

text \<open>
  C4. The claim is what the handler does with a body that carries the otp, but the route
  never hands it such a body. On the request of the README, whose four fields pass their
  rules and whose otp is the code of an unused OTP row of its email, with no user of that
  email in the store, the route replies 422 \<open>Invalid OTP code either used or expired\<close>,
  inserts no User row and marks no OTP row: the schema of the hook does not declare
  \<open>otp\<close>, so the handler looks for a row whose code is NULL. The handler itself, given
  the body as it was sent, replies 200, appends the user and marks the row.
\<close>

theorem sign_up_route_loses_otp:
  "su_otp (req_body readme_request) = Some ''1234''
   \<and> accepts name_rules (su_name (req_body readme_request))
   \<and> accepts (email_rules demo_email_format) (su_email (req_body readme_request))
   \<and> accepts phone_rules (su_phone (req_body readme_request))
   \<and> accepts password_rules (su_password (req_body readme_request))
   \<and> usersTable readme_store = []
   \<and> map (\<lambda>r. (otp_email r, otp_code r, otp_isUsed r)) (otpTable readme_store)
        = [(''john@example.com'', ''1234'', Some False)]
   \<and> sign_up_route demo_email_format demo_env readme_request readme_store
        = Handled
            \<lparr>sent = send_message 422 ''Invalid OTP code either used or expired'',
             db = readme_store,
             ops = [FindUserByEmail ''john@example.com'',
                    FindUnusedOtp ''john@example.com'' None]\<rparr>
   \<and> status (sent (signUp demo_env readme_store (req_body readme_request))) = 200
   \<and> map user_email (usersTable (db (signUp demo_env readme_store (req_body readme_request))))
        = [''john@example.com'']
   \<and> map otp_isUsed (otpTable (db (signUp demo_env readme_store (req_body readme_request))))
        = [Some True]"
  by (simp add: sign_up_route_def route_def signUpUserSchema_def validateWithZod_def
      safeParse_if_def signUp_user_def field_issues_def signUp_def otp_matches_def
      insert_accepted_def varchar_accepts_def demo_env_def
      mark_used_def new_user_def readme_request_def readme_sign_up_def readme_store_def
      demo_email_format_def send_message_def accepts_def failing_def name_rules_def
      email_rules_def phone_rules_def password_rules_def min_rule_def regex_rule_def
      upper_def lower_def digit_def special_def in_range_def Let_def)

section \<open>Properties of the auth gate\<close>








section \<open>Properties of the error handler\<close>

text \<open>
  C6. For every error that reaches the top-level handler the reply is the envelope with
  a message; its status is the error's statusCode when that lies in 400 to 599 and 500
  otherwise; when the status is 500 the message is \<open>Internal server error\<close>, and
  otherwise it is the error's message.
\<close>

theorem errorHandler_envelope:
  "reply_code (errorHandler err) =
     (case statusCode err of
        Some c \<Rightarrow> if 400 \<le> c \<and> c \<le> 599 then c else 500
      | None \<Rightarrow> 500)
   \<and> (reply_code (errorHandler err) = 500 \<longrightarrow>
        reply_message (errorHandler err) = ''Internal server error'')
   \<and> (reply_code (errorHandler err) \<noteq> 500 \<longrightarrow>
        reply_message (errorHandler err) = error_message err)"
  by (auto simp: errorHandler_def Let_def split: option.split)

theorem errorHandler_envelope_witness:
  "errorHandler \<lparr>statusCode = Some 404, error_message = ''Route not found''\<rparr>
     = \<lparr>reply_code = 404, reply_message = ''Route not found''\<rparr>
   \<and> errorHandler \<lparr>statusCode = Some 500, error_message = ''connect ECONNREFUSED''\<rparr>
     = \<lparr>reply_code = 500, reply_message = ''Internal server error''\<rparr>
   \<and> errorHandler \<lparr>statusCode = None, error_message = ''connect ECONNREFUSED''\<rparr>
     = \<lparr>reply_code = 500, reply_message = ''Internal server error''\<rparr>
   \<and> errorHandler \<lparr>statusCode = Some 302, error_message = ''Found''\<rparr>
     = \<lparr>reply_code = 500, reply_message = ''Internal server error''\<rparr>"
  using errorHandler_envelope [of "\<lparr>statusCode = Some 404, error_message = ''Route not found''\<rparr>"]
    errorHandler_envelope [of "\<lparr>statusCode = Some 500, error_message = ''connect ECONNREFUSED''\<rparr>"]
    errorHandler_envelope [of "\<lparr>statusCode = None, error_message = ''connect ECONNREFUSED''\<rparr>"]
    errorHandler_envelope [of "\<lparr>statusCode = Some 302, error_message = ''Found''\<rparr>"]
  by (simp add: errorHandler_def)

section \<open>Properties of the request validator\<close>

text \<open>
  The rules the repository's schemas declare all carry a message that is not empty, and
  none of their field names is a name that the object literal inherits; so the issues of
  their rules meet the side conditions of the theorem on validation below.
\<close>

lemma repository_rules_nonempty:
  "r \<in> set (name_rules @ email_rules email_format @ phone_rules @ password_rules) \<Longrightarrow> snd r \<noteq> []"
  by (auto simp: name_rules_def email_rules_def phone_rules_def password_rules_def
      min_rule_def regex_rule_def)

lemma repository_fields_not_inherited:
  "field \<in> {''name'', ''email'', ''phone'', ''password''} \<Longrightarrow>
     join [field] ''.'' \<notin> set object_prototype_names"
  by (auto simp: object_prototype_names_def)

lemma field_issues_message:
  "i \<in> set (field_issues field rules v) \<Longrightarrow>
     issue_path i = [field] \<and> issue_message i \<in> snd ` set rules"
  by (force simp: field_issues_def failing_def)

text \<open>
  The loop of \<^verbatim>\<open>formatZodErrors\<close> keeps what is already set and otherwise takes the
  first issue of each path.
\<close>

lemma formatZodErrors_from_first:
  assumes "\<forall>i\<in>set issues. issue_message i \<noteq> []
              \<and> join (issue_path i) ''.'' \<notin> set object_prototype_names"
    and "\<forall>q m. formatted q = Some m \<longrightarrow> m \<noteq> []"
  shows "formatZodErrors_from formatted issues p =
     (case formatted p of
        Some m \<Rightarrow> Some m
      | None \<Rightarrow> map_option issue_message (find (\<lambda>i. join (issue_path i) ''.'' = p) issues))"
  using assms
proof (induction issues arbitrary: formatted)
  case Nil
  then show ?case by (simp split: option.split)
next
  case (Cons i issues)
  let ?path = "join (issue_path i) ''.''"
  show ?case
  proof (cases "formatted ?path")
    case None
    with Cons.prems have f: "falsy_at formatted ?path"
      by (simp add: falsy_at_def)
    have "\<forall>i\<in>set issues. issue_message i \<noteq> []
        \<and> join (issue_path i) ''.'' \<notin> set object_prototype_names"
      using Cons.prems(1) by simp
    moreover have "\<forall>q m. (formatted(?path \<mapsto> issue_message i)) q = Some m \<longrightarrow> m \<noteq> []"
      using Cons.prems by auto
    ultimately have ih: "formatZodErrors_from (formatted(?path \<mapsto> issue_message i)) issues p =
       (case (formatted(?path \<mapsto> issue_message i)) p of
          Some m \<Rightarrow> Some m
        | None \<Rightarrow> map_option issue_message (find (\<lambda>i. join (issue_path i) ''.'' = p) issues))"
      by (rule Cons.IH [of "formatted(?path \<mapsto> issue_message i)"])
    have step: "formatZodErrors_from formatted (i # issues) p
        = formatZodErrors_from (formatted(?path \<mapsto> issue_message i)) issues p"
      using f by (simp add: Let_def)
    show ?thesis
    proof (cases "p = ?path")
      case True
      with None show ?thesis unfolding step ih by simp
    next
      case False
      then show ?thesis unfolding step ih by (auto split: option.split)
    qed
  next
    case (Some m)
    with Cons.prems have f: "\<not> falsy_at formatted ?path"
      by (simp add: falsy_at_def)
    from Cons.IH [of formatted] Cons.prems
    have "formatZodErrors_from formatted issues p =
       (case formatted p of
          Some m \<Rightarrow> Some m
        | None \<Rightarrow> map_option issue_message (find (\<lambda>i. join (issue_path i) ''.'' = p) issues))"
      by simp
    with f Some show ?thesis by (auto simp: Let_def split: option.split)
  qed
qed

text \<open>
  Both side conditions matter to the loop: a message that is empty is overwritten by the
  next issue of its path, and a path named like an inherited property gets no entry.
\<close>

lemma formatZodErrors_empty_message:
  "formatZodErrors
     [\<lparr>issue_path = [''a''], issue_message = []\<rparr>,
      \<lparr>issue_path = [''a''], issue_message = ''second''\<rparr>] ''a'' = Some ''second''"
  by (simp add: formatZodErrors_def falsy_at_def object_prototype_names_def)

lemma formatZodErrors_inherited_name:
  "formatZodErrors [\<lparr>issue_path = [''toString''], issue_message = ''first''\<rparr>] ''toString'' = None"
  by (simp add: formatZodErrors_def falsy_at_def object_prototype_names_def)

text \<open>
  C7. When the body schema of a route fails on the request body, the hook replies 422
  \<open>Invalid body\<close> and the request ends there: the handler is not run, the store is
  untouched and no store call is made. The details of the reply map each path that has
  an issue to the message of the first issue reported for it, and no other path; later
  issues of the same path are dropped. (The messages are not empty and the paths are not
  names inherited by the object literal, as is the case for every rule of the
  repository's schemas.)
\<close>

theorem validation_short_circuits:
  assumes "schema_body schemas = Some sch"
    and "sch (req_body req) = Inr (Failure issues)"
    and "\<forall>i\<in>set issues. issue_message i \<noteq> []
            \<and> join (issue_path i) ''.'' \<notin> set object_prototype_names"
  shows "\<exists>details.
      route (\<lambda>r. validateWithZod r schemas) handler req s
        = Short_circuited \<lparr>v_status = 422, v_error = ''Invalid body'', v_details = details\<rparr> s []
      \<and> (\<forall>p. details p =
            map_option issue_message (find (\<lambda>i. join (issue_path i) ''.'' = p) issues))"
proof -
  have "formatZodErrors issues p =
      map_option issue_message (find (\<lambda>i. join (issue_path i) ''.'' = p) issues)" for p
    unfolding formatZodErrors_def
    using formatZodErrors_from_first [of issues Map.empty p] assms(3) by simp
  moreover have "route (\<lambda>r. validateWithZod r schemas) handler req s
        = Short_circuited \<lparr>v_status = 422, v_error = ''Invalid body'',
            v_details = formatZodErrors issues\<rparr> s []"
    by (simp add: route_def validateWithZod_def safeParse_if_def assms(1,2) invalid_def)
  ultimately show ?thesis by blast
qed

theorem validation_short_circuits_witness:
  "schema_body (body_only password_schema) = Some password_schema
   \<and> password_schema (req_body password_request)
       = Inr (Failure (field_issues ''password'' password_rules ''abc''))
   \<and> map issue_message (field_issues ''password'' password_rules ''abc'')
       = [''Password must be at least 8 characters'',
          ''Password must contain at least one uppercase letter'',
          ''Password must contain at least one number'',
          ''Password must contain at least one special character'']
   \<and> list_all (\<lambda>i. issue_message i \<noteq> []
            \<and> join (issue_path i) ''.'' \<notin> set object_prototype_names)
         (field_issues ''password'' password_rules ''abc'')
   \<and> (\<exists>details.
        route (\<lambda>r. validateWithZod r (body_only password_schema)) password_handler
            password_request registered_store
          = Short_circuited \<lparr>v_status = 422, v_error = ''Invalid body'', v_details = details\<rparr>
              registered_store []
        \<and> details ''password'' = Some ''Password must be at least 8 characters''
        \<and> details ''email'' = None)"
proof -
  have h1: "schema_body (body_only password_schema) = Some password_schema"
    by (simp add: body_only_def)
  have iss: "field_issues ''password'' password_rules ''abc''
     = [\<lparr>issue_path = [''password''], issue_message = ''Password must be at least 8 characters''\<rparr>,
        \<lparr>issue_path = [''password''], issue_message = ''Password must contain at least one uppercase letter''\<rparr>,
        \<lparr>issue_path = [''password''], issue_message = ''Password must contain at least one number''\<rparr>,
        \<lparr>issue_path = [''password''], issue_message = ''Password must contain at least one special character''\<rparr>]"
    by (simp add: field_issues_def failing_def password_rules_def min_rule_def regex_rule_def
        upper_def lower_def digit_def special_def in_range_def)
  have h2: "password_schema (req_body password_request)
       = Inr (Failure (field_issues ''password'' password_rules ''abc''))"
    by (simp add: password_schema_def password_request_def accepts_def iss)
       (simp add: failing_def password_rules_def min_rule_def)
  have h3: "\<forall>i\<in>set (field_issues ''password'' password_rules ''abc''). issue_message i \<noteq> []
            \<and> join (issue_path i) ''.'' \<notin> set object_prototype_names"
    by (simp add: iss object_prototype_names_def)
  from validation_short_circuits [OF h1 h2 h3, of password_handler registered_store]
  obtain details where d: "route (\<lambda>r. validateWithZod r (body_only password_schema)) password_handler
            password_request registered_store
          = Short_circuited \<lparr>v_status = 422, v_error = ''Invalid body'', v_details = details\<rparr>
              registered_store []"
    and f: "\<forall>p. details p = map_option issue_message
         (find (\<lambda>i. join (issue_path i) ''.'' = p) (field_issues ''password'' password_rules ''abc''))"
    by blast
  from f have "details ''password'' = Some ''Password must be at least 8 characters''"
    "details ''email'' = None"
    by (simp_all add: iss)
  with d h1 h2 h3 show ?thesis by (simp add: iss list_all_iff)
qed

section \<open>Properties of the password rule\<close>

text \<open>
  C9. The password rule accepts a string exactly when it has at least 8 characters, an
  uppercase letter, a lowercase letter, a digit and a character that is none of these.
  It rejects \<open>abc12345\<close>, whose failing rules are the uppercase letter and the special
  character, and accepts \<open>Abc123!@\<close>.
\<close>

theorem password_rule_examples:
  "(accepts password_rules s \<longleftrightarrow>
      8 \<le> length s \<and> (\<exists>c\<in>set s. upper c) \<and> (\<exists>c\<in>set s. lower c) \<and> (\<exists>c\<in>set s. digit c)
      \<and> (\<exists>c\<in>set s. \<not> upper c \<and> \<not> lower c \<and> \<not> digit c))
   \<and> \<not> accepts password_rules ''abc12345''
   \<and> failing password_rules ''abc12345'' =
        [''Password must contain at least one uppercase letter'',
         ''Password must contain at least one special character'']
   \<and> accepts password_rules ''Abc123!@''"
proof (intro conjI)
  show "accepts password_rules s \<longleftrightarrow>
      8 \<le> length s \<and> (\<exists>c\<in>set s. upper c) \<and> (\<exists>c\<in>set s. lower c) \<and> (\<exists>c\<in>set s. digit c)
      \<and> (\<exists>c\<in>set s. \<not> upper c \<and> \<not> lower c \<and> \<not> digit c)"
    by (simp add: accepts_def failing_def password_rules_def min_rule_def regex_rule_def
        special_def list_ex_iff)
  show "\<not> accepts password_rules ''abc12345''"
    by (simp add: accepts_def failing_def password_rules_def min_rule_def regex_rule_def
        upper_def lower_def digit_def special_def in_range_def)
  show "failing password_rules ''abc12345'' =
        [''Password must contain at least one uppercase letter'',
         ''Password must contain at least one special character'']"
    by (simp add: failing_def password_rules_def min_rule_def regex_rule_def
        upper_def lower_def digit_def special_def in_range_def)
  show "accepts password_rules ''Abc123!@''"
    by (simp add: accepts_def failing_def password_rules_def min_rule_def regex_rule_def
        upper_def lower_def digit_def special_def in_range_def)
qed

theorem password_rule_examples_witness:
  "accepts password_rules ''Abc123!@''
   \<and> 8 \<le> length ''Abc123!@'' \<and> (\<exists>c\<in>set ''Abc123!@''. upper c)
   \<and> (\<exists>c\<in>set ''Abc123!@''. lower c) \<and> (\<exists>c\<in>set ''Abc123!@''. digit c)
   \<and> (\<exists>c\<in>set ''Abc123!@''. \<not> upper c \<and> \<not> lower c \<and> \<not> digit c)"
  using password_rule_examples [of "''Abc123!@''"] by blast

section \<open>Properties of the OTP generator\<close>

lemma digit_char_digit: "d < 10 \<Longrightarrow> digit (digit_char d)"
  by (simp add: digit_def in_range_def digit_char_def)

lemma digit_value_digit_char: "d < 10 \<Longrightarrow> digit_value (digit_char d) = d"
  by (simp add: digit_value_def digit_char_def)

lemma toString_digits: "list_all digit (toString n)"
proof (induction n rule: toString.induct)
  case (1 n)
  show ?case
  proof (cases "n < 10")
    case True
    then show ?thesis by (simp add: toString.simps [of n] digit_char_digit)
  next
    case False
    with 1 show ?thesis by (simp add: toString.simps [of n] digit_char_digit)
  qed
qed

lemma decimal_snoc: "decimal (s @ [c]) = 10 * decimal s + digit_value c"
  by (simp add: decimal_def)

lemma decimal_toString: "decimal (toString n) = n"
proof (induction n rule: toString.induct)
  case (1 n)
  show ?case
  proof (cases "n < 10")
    case True
    then show ?thesis by (simp add: toString.simps [of n] decimal_def digit_value_digit_char)
  next
    case False
    with 1 have "decimal (toString (n div 10)) = n div 10" by simp
    with False show ?thesis
      by (simp add: toString.simps [of n] decimal_snoc digit_value_digit_char)
  qed
qed

lemma length_toString: "0 < k \<Longrightarrow> n < 10 ^ k \<Longrightarrow> length (toString n) \<le> k"
proof (induction n arbitrary: k rule: toString.induct)
  case (1 n)
  show ?case
  proof (cases "n < 10")
    case True
    with 1(2) show ?thesis by (simp add: toString.simps [of n])
  next
    case False
    from 1(2) obtain j where kj: "k = Suc j" by (cases k) auto
    with False 1(3) have "0 < j" by (cases j) auto
    with kj have j: "k = Suc j" "0 < j" by simp_all
    with 1(3) have "n div 10 < 10 ^ j" by (simp add: less_mult_imp_div_less mult.commute)
    with 1(1) [OF False j(2)] have "length (toString (n div 10)) \<le> j" by simp
    with False j show ?thesis by (simp add: toString.simps [of n])
  qed
qed

lemma decimal_zeros: "decimal (replicate k CHR ''0'' @ s) = decimal s"
proof -
  have "foldl (\<lambda>acc c. 10 * acc + digit_value c) 0 (replicate k CHR ''0'') = 0"
    by (induction k) (simp_all add: digit_value_def)
  then show ?thesis by (simp add: decimal_def)
qed

lemma padStart_zero:
  "padStart s n ''0'' = replicate (n - length s) CHR ''0'' @ s"
proof -
  have "concat (replicate k ''0'') = replicate k CHR ''0''" for k
    by (induction k) simp_all
  then show ?thesis by (simp add: padStart_def)
qed

text \<open>
  C8. For every number that \<^verbatim>\<open>randomInt(0, 10_000)\<close> can draw, that is every natural
  number below 10000, the generated code has exactly four characters, all of them
  decimal digits, denotes the number drawn, and is the decimal representation of that
  number filled on the left with zeros.
\<close>

theorem generate4DigitOTP_four_digits:
  assumes "randomInt < 10000"
  shows "length (generate4DigitOTP randomInt) = 4
     \<and> (\<forall>c\<in>set (generate4DigitOTP randomInt). digit c)
     \<and> decimal (generate4DigitOTP randomInt) = randomInt
     \<and> generate4DigitOTP randomInt
         = replicate (4 - length (toString randomInt)) CHR ''0'' @ toString randomInt"
proof -
  have len: "length (toString randomInt) \<le> 4"
    using assms by (intro length_toString) simp_all
  have eq: "generate4DigitOTP randomInt
         = replicate (4 - length (toString randomInt)) CHR ''0'' @ toString randomInt"
    by (simp add: generate4DigitOTP_def padStart_zero)
  have "length (generate4DigitOTP randomInt) = 4"
    unfolding eq using len by simp
  moreover have "\<forall>c\<in>set (generate4DigitOTP randomInt). digit c"
    unfolding eq using toString_digits [of randomInt]
    by (auto simp: list_all_iff digit_def in_range_def)
  moreover have "decimal (generate4DigitOTP randomInt) = randomInt"
    unfolding eq by (simp add: decimal_zeros decimal_toString)
  ultimately show ?thesis using eq by blast
qed

theorem generate4DigitOTP_four_digits_witness:
  "(42::nat) < 10000 \<and> generate4DigitOTP 42 = ''0042'' \<and> length (generate4DigitOTP 42) = 4
   \<and> decimal (generate4DigitOTP 42) = 42"
proof -
  have h: "(42::nat) < 10000" by simp
  have v: "generate4DigitOTP 42 = ''0042''" by code_simp
  from generate4DigitOTP_four_digits [OF h]
  have "length (generate4DigitOTP 42) = 4" and "decimal (generate4DigitOTP 42) = 42"
    by blast+
  with h v show ?thesis by blast
qed

end
